theory Spec2Isabelle
  imports Main "HOL-Library.Sublist"
begin

section \<open>The installable-manifest audit\<close>

text \<open>
  A shallow embedding of \<^verbatim>\<open>lighthouse-core/audits/installable-manifest.js\<close>.
  The audit reads the manifest values computed elsewhere (a list of named checks and a
  parse-failure flag), keeps the failure texts of the failing banner checks, records
  every check's outcome in an object keyed by check id, and builds the audit product.
\<close>

subsection \<open>Data\<close>

text \<open>
  One entry of \<^verbatim>\<open>manifestValues.allChecks\<close>. The source's field \<^verbatim>\<open>id\<close> is
  \<open>check_id\<close> here (\<open>id\<close> is the identity function of HOL). Ids are JavaScript strings:
  the source compares them with string literals and uses them as property keys.
\<close>

record check =
  check_id :: string
  passing :: bool
  failureText :: string

text \<open>
  \<^verbatim>\<open>LH.Artifacts.ManifestValues\<close>. The source reads \<^verbatim>\<open>parseFailureReason\<close> only when
  \<^verbatim>\<open>isParseFailure\<close> is true, where it is a string.
\<close>

record manifestValues =
  allChecks :: "check list"
  isParseFailure :: bool
  parseFailureReason :: string

text \<open>The artifacts handed to the audit; only \<^verbatim>\<open>artifacts.Manifest\<close> is read.\<close>

record 'm artifacts =
  Manifest :: 'm

text \<open>
  A plain JavaScript object, as the map from its own enumerable property keys to their
  values. The order of the keys is not modelled.
\<close>

type_synonym 'v object = "string \<rightharpoonup> 'v"

text \<open>
  The values of the properties of \<^verbatim>\<open>details.items[0]\<close>: the array of failure strings
  under \<^verbatim>\<open>failures\<close>, and one boolean per check.
\<close>

datatype item_value = Strings "string list" | Boolean bool

record audit_details =
  items :: "item_value object list"

text \<open>
  \<^verbatim>\<open>LH.Audit.Product\<close> as this audit builds it; \<^verbatim>\<open>explanation\<close> is an optional
  property, absent in the passing product.
\<close>

record product =
  rawValue :: bool
  explanation :: "string option"
  details :: audit_details

subsection \<open>Built-ins of the language that the audit calls\<close>

text \<open>
  \<^verbatim>\<open>Array.prototype.includes\<close> on an array of strings: a scan from the left, comparing
  with SameValueZero, which on strings is equality.
\<close>

primrec includes_array :: "'a list \<Rightarrow> 'a \<Rightarrow> bool" where
  "includes_array [] y = False"
| "includes_array (x # xs) y = (x = y \<or> includes_array xs y)"

text \<open>
  \<^verbatim>\<open>Array.prototype.join\<close> on an array of strings, as the language defines it: the
  result \<open>R\<close> starts empty, and for \<open>k = 0, 1, ...\<close> the separator is added when
  \<open>k > 0\<close>, then the \<open>k\<close>-th element.
\<close>

fun join_loop :: "string \<Rightarrow> nat \<Rightarrow> string \<Rightarrow> string list \<Rightarrow> string" where
  "join_loop sep k R [] = R"
| "join_loop sep k R (x # xs) =
     join_loop sep (Suc k) ((if k > 0 then R @ sep else R) @ x) xs"

definition join :: "string list \<Rightarrow> string \<Rightarrow> string" where
  "join xs sep = join_loop sep 0 [] xs"

text \<open>
  The assignment \<^verbatim>\<open>obj[key] = value\<close> of a boolean to a plain object (one created by
  \<^verbatim>\<open>{}\<close>, whose prototype is \<^verbatim>\<open>Object.prototype\<close>). It creates or overwrites the own
  property \<open>key\<close>, except for the key \<^verbatim>\<open>__proto__\<close>: that assignment runs the setter
  inherited from \<^verbatim>\<open>Object.prototype\<close>, which ignores a value that is neither an object
  nor null, so the object keeps its properties and gains none.
\<close>

definition assign :: "'v object \<Rightarrow> string \<Rightarrow> 'v \<Rightarrow> 'v object" where
  "assign obj key v = (if key = ''__proto__'' then obj else obj(key \<mapsto> v))"

text \<open>
  The object literal \<^verbatim>\<open>{failures, ...checks}\<close>: the property \<^verbatim>\<open>failures\<close> is defined
  first, then every own property of \<^verbatim>\<open>checks\<close> is copied over it.
\<close>

definition spread :: "item_value object \<Rightarrow> bool object \<Rightarrow> item_value object" where
  "spread obj checks = obj ++ (map_option Boolean \<circ> checks)"

subsection \<open>The audit\<close>

definition bannerCheckIds :: "string list" where
  "bannerCheckIds =
     [''hasName'', ''hasShortName'', ''hasStartUrl'', ''hasPWADisplayValue'',
      ''hasIconsAtLeast192px'']"

definition getManifestFailures :: "manifestValues \<Rightarrow> string list" where
  "getManifestFailures manifestValues =
     map (\<lambda>check. failureText check)
       (filter (\<lambda>check. includes_array bannerCheckIds (check_id check) \<and> \<not> passing check)
          (allChecks manifestValues))"

text \<open>The \<^verbatim>\<open>forEach\<close> loop is a fold over the checks, from the empty object.\<close>

definition getManifestChecks :: "manifestValues \<Rightarrow> bool object" where
  "getManifestChecks manifestValues =
     fold (\<lambda>check checks. assign checks (check_id check) (passing check))
       (allChecks manifestValues) Map.empty"

text \<open>
  The local \<^verbatim>\<open>failures\<close> of \<^verbatim>\<open>audit\<close> once the conditional \<^verbatim>\<open>push\<close> has run: the
  array that \<^verbatim>\<open>getManifestFailures\<close> returned, with the parse-failure reason pushed at
  its end when \<^verbatim>\<open>isParseFailure\<close> is set.
\<close>

definition audit_failures :: "manifestValues \<Rightarrow> string list" where
  "audit_failures manifestValues =
     (let failures = getManifestFailures manifestValues
      in if isParseFailure manifestValues
         then failures @ [parseFailureReason manifestValues]
         else failures)"

text \<open>
  \<^verbatim>\<open>audit\<close> is an async function: its result is a promise, which is rejected with the
  error of \<^verbatim>\<open>ManifestValues.request\<close> when the awaited promise is rejected (\<open>Inl\<close>), and
  fulfilled with the product otherwise (\<open>Inr\<close>). The collaborator
  \<^verbatim>\<open>ManifestValues.request\<close> is a parameter, with any type of errors. The audit is
  called as a method of its class, so that \<^verbatim>\<open>this.getManifestChecks\<close> is the function
  above.
\<close>

definition audit ::
  "('m \<Rightarrow> 'c \<Rightarrow> 'e + manifestValues) \<Rightarrow> 'm artifacts \<Rightarrow> 'c \<Rightarrow> 'e + product" where
  "audit request artifacts context =
     (case request (Manifest artifacts) context of
        Inl err \<Rightarrow> Inl err
      | Inr manifestValues \<Rightarrow>
          (let failures = audit_failures manifestValues;
               checks = getManifestChecks manifestValues;
               details = \<lparr>items = [spread [''failures'' \<mapsto> Strings failures] checks]\<rparr>
           in if length failures > 0
              then Inr \<lparr>rawValue = False,
                        explanation =
                          Some (''Failures: '' @ join failures [CHR '','', CHR 0x0A] @ ''.''),
                        details = details\<rparr>
              else Inr \<lparr>rawValue = True, explanation = None, details = details\<rparr>))"

subsection \<open>The specification's vocabulary\<close>

text \<open>
  The set of required checks, as the specification names it, and the selection of
  failures in the specification's words: keep a check when its id is in the set and it
  is not passing, and give its failure text, in the order of the checklist.
\<close>

definition RequiredCheckSet :: "string set" where
  "RequiredCheckSet =
     {''hasName'', ''hasShortName'', ''hasStartUrl'', ''hasPWADisplayValue'',
      ''hasIconsAtLeast192px''}"

fun selectFailures :: "check list \<Rightarrow> string list" where
  "selectFailures [] = []"
| "selectFailures (c # cs) =
     (if check_id c \<in> RequiredCheckSet \<and> passing c = False
      then failureText c # selectFailures cs
      else selectFailures cs)"

text \<open>
  Joining strings with a separator, in the specification's words: the strings one after
  the other, with the separator between each two neighbours.
\<close>

fun joined_with :: "string \<Rightarrow> string list \<Rightarrow> string" where
  "joined_with sep [] = []"
| "joined_with sep [x] = x"
| "joined_with sep (x # y # ys) = x @ sep @ joined_with sep (y # ys)"

text \<open>The checklists of the specification's scenarios.\<close>

definition passing_check :: "string \<Rightarrow> check" where
  "passing_check i = \<lparr>check_id = i, passing = True, failureText = ''''\<rparr>"

definition failing_check :: "string \<Rightarrow> string \<Rightarrow> check" where
  "failing_check i t = \<lparr>check_id = i, passing = False, failureText = t\<rparr>"

definition checklist :: "check list \<Rightarrow> manifestValues" where
  "checklist cs = \<lparr>allChecks = cs, isParseFailure = False, parseFailureReason = ''''\<rparr>"

definition parse_failure :: "check list \<Rightarrow> string \<Rightarrow> manifestValues" where
  "parse_failure cs reason =
     \<lparr>allChecks = cs, isParseFailure = True, parseFailureReason = reason\<rparr>"

definition scenario_A :: manifestValues where
  "scenario_A =
     checklist [passing_check ''hasName'', passing_check ''hasShortName'',
                passing_check ''hasStartUrl'', passing_check ''hasPWADisplayValue'',
                passing_check ''hasIconsAtLeast192px'']"

definition scenario_B :: manifestValues where
  "scenario_B =
     checklist [passing_check ''hasName'',
                failing_check ''hasShortName'' ''Manifest does not contain a short_name field'',
                passing_check ''hasStartUrl'', passing_check ''hasPWADisplayValue'',
                passing_check ''hasIconsAtLeast192px'']"

definition scenario_C :: manifestValues where
  "scenario_C = parse_failure [] ''Failed to fetch manifest''"

definition scenario_D :: manifestValues where
  "scenario_D = checklist [passing_check ''hasName'', failing_check ''hasName'' ''No name'']"

text \<open>Further checklists, on which the theorems below are evaluated.\<close>

definition empty_checklist :: manifestValues where
  "empty_checklist = checklist []"

definition out_of_banner_order :: manifestValues where
  "out_of_banner_order =
     checklist [failing_check ''hasIconsAtLeast192px'' ''No icon'',
                failing_check ''hasThemeColor'' ''No theme_color'',
                passing_check ''hasStartUrl'',
                failing_check ''hasName'' ''No name'']"

definition two_failures :: manifestValues where
  "two_failures =
     checklist [failing_check ''hasName'' ''No name'',
                failing_check ''hasShortName'' ''No short_name'']"

definition parse_failure_after_failures :: manifestValues where
  "parse_failure_after_failures =
     parse_failure [failing_check ''hasName'' ''No name'',
                    failing_check ''hasStartUrl'' ''No start_url''] ''Failed to parse''"

definition with_other_check :: manifestValues where
  "with_other_check =
     checklist [failing_check ''hasName'' ''No name'',
                failing_check ''hasThemeColor'' ''No theme_color'',
                passing_check ''hasStartUrl'']"

definition failures_check :: manifestValues where
  "failures_check =
     checklist [failing_check ''hasName'' ''No name'', passing_check ''failures'']"

text \<open>
  Two collaborators: one whose promise is fulfilled with the manifest values it is handed
  as the artifact, and one whose promise is rejected.
\<close>

definition request_gives :: "manifestValues \<Rightarrow> unit \<Rightarrow> string + manifestValues" where
  "request_gives manifest context = Inr manifest"

definition request_fails :: "manifestValues \<Rightarrow> unit \<Rightarrow> string + manifestValues" where
  "request_fails manifest context = Inl ''Manifest artifact is malformed''"

section \<open>Properties\<close>

subsection \<open>Helper facts\<close>

lemma includes_set: "includes_array xs y \<longleftrightarrow> y \<in> set xs"
  by (induction xs) auto

lemma set_bannerCheckIds: "set bannerCheckIds = RequiredCheckSet"
  by (simp add: bannerCheckIds_def RequiredCheckSet_def)

lemma includes_banner: "includes_array bannerCheckIds i \<longleftrightarrow> i \<in> RequiredCheckSet"
  by (simp add: includes_set set_bannerCheckIds)

lemma selectFailures_filter:
  "selectFailures cs =
     map failureText (filter (\<lambda>c. check_id c \<in> RequiredCheckSet \<and> \<not> passing c) cs)"
  by (induction cs) auto

lemma getManifestFailures_filter:
  "getManifestFailures mv =
     map failureText
       (filter (\<lambda>c. check_id c \<in> RequiredCheckSet \<and> \<not> passing c) (allChecks mv))"
  by (simp add: getManifestFailures_def includes_banner)

lemma join_loop_Suc: "join_loop sep (Suc k) R xs = R @ concat (map ((@) sep) xs)"
  by (induction xs arbitrary: k R) auto

lemma joined_with_Cons: "joined_with sep (x # xs) = x @ concat (map ((@) sep) xs)"
  by (induction xs arbitrary: x) auto

lemma join_joined_with: "join xs sep = joined_with sep xs"
  by (cases xs) (simp_all add: join_def join_loop_Suc joined_with_Cons)

lemma find_append_case:
  "find P (xs @ ys) = (case find P xs of None \<Rightarrow> find P ys | Some x \<Rightarrow> Some x)"
  by (induction xs) auto

text \<open>
  The loop of \<^verbatim>\<open>getManifestChecks\<close> from any starting object: a key other than
  \<^verbatim>\<open>__proto__\<close> holds the outcome of the last check with that id, or what the starting
  object held when no check has that id.
\<close>

lemma fold_assign_lookup:
  "fold (\<lambda>check checks. assign checks (check_id check) (passing check)) cs m k =
     (if k = ''__proto__'' then m k
      else case find (\<lambda>c. check_id c = k) (rev cs) of
             Some c \<Rightarrow> Some (passing c)
           | None \<Rightarrow> m k)"
  by (induction cs arbitrary: m) (auto simp: assign_def find_append_case split: option.splits)

lemma getManifestChecks_lookup:
  "getManifestChecks mv k =
     (if k = ''__proto__'' then None
      else map_option passing (find (\<lambda>c. check_id c = k) (rev (allChecks mv))))"
  by (simp add: getManifestChecks_def fold_assign_lookup split: option.splits)

lemma dom_getManifestChecks:
  "dom (getManifestChecks mv) = check_id ` set (allChecks mv) - {''__proto__''}"
proof -
  have "getManifestChecks mv k \<noteq> None \<longleftrightarrow>
          k \<in> check_id ` set (allChecks mv) \<and> k \<noteq> ''__proto__''" for k
  proof -
    have "find (\<lambda>c. check_id c = k) (rev (allChecks mv)) = None \<longleftrightarrow>
            k \<notin> check_id ` set (allChecks mv)"
      by (auto simp: find_None_iff)
    then show ?thesis by (cases "find (\<lambda>c. check_id c = k) (rev (allChecks mv))")
        (auto simp: getManifestChecks_lookup)
  qed
  then show ?thesis by (auto simp: dom_def)
qed

lemma audit_failures_empty:
  "audit_failures mv = [] \<longleftrightarrow>
     \<not> isParseFailure mv \<and>
     (\<forall>c\<in>set (allChecks mv). check_id c \<in> RequiredCheckSet \<longrightarrow> passing c)"
  by (auto simp: audit_failures_def Let_def getManifestFailures_filter filter_empty_conv)

text \<open>What \<^verbatim>\<open>audit\<close> returns once the collaborator has given the manifest values.\<close>

lemma audit_Inr:
  assumes "request (Manifest a) ctx = Inr mv"
  shows "audit request a ctx =
           Inr \<lparr>rawValue = (audit_failures mv = []),
                explanation =
                  (if audit_failures mv = [] then None
                   else Some (''Failures: '' @
                              join (audit_failures mv) [CHR '','', CHR 0x0A] @ ''.'')),
                details =
                  \<lparr>items = [spread [''failures'' \<mapsto> Strings (audit_failures mv)]
                                     (getManifestChecks mv)]\<rparr>\<rparr>"
  using assms by (simp add: audit_def Let_def)

text \<open>The two parts of the local \<^verbatim>\<open>failures\<close>, with the required set as a set.\<close>

lemma audit_failures_filter:
  "audit_failures mv =
     map failureText
       (filter (\<lambda>c. check_id c \<in> RequiredCheckSet \<and> \<not> passing c) (allChecks mv))
     @ (if isParseFailure mv then [parseFailureReason mv] else [])"
  by (simp add: audit_failures_def Let_def getManifestFailures_filter)

text \<open>The last check with a given id is the one a search from the end finds.\<close>

lemma last_check_lookup:
  assumes "cs = xs @ c # ys" and "check_id c \<notin> check_id ` set ys"
  shows "find (\<lambda>d. check_id d = check_id c) (rev cs) = Some c"
proof -
  have "find (\<lambda>d. check_id d = check_id c) (rev ys) = None"
    unfolding find_None_iff using assms(2) by (metis imageI set_rev)
  then show ?thesis
    using assms(1) by (simp add: find_append_case)
qed

lemma spread_failures:
  "spread [''failures'' \<mapsto> Strings fs] checks ''failures'' =
     (case checks ''failures'' of None \<Rightarrow> Some (Strings fs) | Some b \<Rightarrow> Some (Boolean b))"
  by (simp add: spread_def map_add_def split: option.splits)

lemma find_SomeD: "find P xs = Some x \<Longrightarrow> x \<in> set xs \<and> P x"
  by (induction xs) (auto split: if_splits)

text \<open>The object in \<^verbatim>\<open>details.items\<close>, key by key.\<close>

lemma spread_lookup:
  "spread [''failures'' \<mapsto> Strings fs] checks k =
     (case checks k of
        Some b \<Rightarrow> Some (Boolean b)
      | None \<Rightarrow> if k = ''failures'' then Some (Strings fs) else None)"
  by (simp add: spread_def map_add_def split: option.splits)

text \<open>Joining a sequence that ends with \<open>r\<close> gives a string that ends with \<open>r\<close>.\<close>

lemma joined_with_snoc:
  "joined_with sep (xs @ [r]) = (if xs = [] then [] else joined_with sep xs @ sep) @ r"
  by (induction sep xs rule: joined_with.induct) simp_all

text \<open>Facts for evaluating the audit on the concrete checklists.\<close>

lemmas scenario_defs =
  scenario_A_def scenario_B_def scenario_C_def scenario_D_def checklist_def parse_failure_def
  passing_check_def failing_check_def

lemma RequiredCheckSet_simps:
  "''hasName'' \<in> RequiredCheckSet" "''hasShortName'' \<in> RequiredCheckSet"
  "''hasStartUrl'' \<in> RequiredCheckSet" "''hasPWADisplayValue'' \<in> RequiredCheckSet"
  "''hasIconsAtLeast192px'' \<in> RequiredCheckSet"
  "''__proto__'' \<notin> RequiredCheckSet" "''failures'' \<notin> RequiredCheckSet"
  "''hasThemeColor'' \<notin> RequiredCheckSet"
  by (simp_all add: RequiredCheckSet_def)

subsection \<open>Selecting the failures\<close>

text \<open>
  C1. For every checklist, \<^verbatim>\<open>getManifestFailures\<close> returns exactly the failure text of
  each check whose id is in the required set and whose \<open>passing\<close> is false, in the
  order in which the checks stand in the checklist: it is the selection the
  specification describes, a subsequence of the checklist's failure texts, with one
  entry per failing required check. The function is total: it has no failing branch,
  and the result may be empty.
\<close>

theorem getManifestFailures_selectFailures:
  "getManifestFailures mv = selectFailures (allChecks mv)
   \<and> subseq (getManifestFailures mv) (map failureText (allChecks mv))
   \<and> length (getManifestFailures mv) =
       length (filter (\<lambda>c. check_id c \<in> RequiredCheckSet \<and> \<not> passing c) (allChecks mv))"
proof -
  have "subseq (filter (\<lambda>c. check_id c \<in> RequiredCheckSet \<and> \<not> passing c) (allChecks mv))
          (allChecks mv)"
    by simp
  then have "subseq (getManifestFailures mv) (map failureText (allChecks mv))"
    unfolding getManifestFailures_filter by (rule subseq_map)
  then show ?thesis
    by (simp add: selectFailures_filter getManifestFailures_filter)
qed

text \<open>
  On a checklist whose failing required checks stand in another order than the banner
  ids, the failure texts come in the checklist's order, and the failing check outside
  the required set gives none; on the empty checklist the result is empty.
\<close>

theorem getManifestFailures_selectFailures_witness:
  "getManifestFailures out_of_banner_order = [''No icon'', ''No name'']
   \<and> getManifestFailures empty_checklist = []"
  using getManifestFailures_selectFailures [of out_of_banner_order]
    getManifestFailures_selectFailures [of empty_checklist]
  by (simp add: out_of_banner_order_def empty_checklist_def scenario_defs
      RequiredCheckSet_simps)

subsection \<open>The verdict\<close>



text \<open>
  C3. For every checklist with \<open>isParseFailure\<close> set, the audit raises nothing: it
  returns a product with \<open>rawValue\<close> false, and the parse-failure reason is the last of
  the failures, after all the failures of required checks, however many they are. The
  product shows it: the explanation is built from the required failures followed by the
  reason, so that it ends with the reason and the full stop, and the property
  \<^verbatim>\<open>failures\<close> of the object in \<^verbatim>\<open>details.items\<close> is that same sequence (when no check
  has the id \<^verbatim>\<open>failures\<close>, which would overwrite it).
\<close>

theorem parse_failure_reason_last:
  assumes "request (Manifest a) ctx = Inr mv" and "isParseFailure mv"
  shows "\<exists>p item. audit request a ctx = Inr p \<and> rawValue p = False
           \<and> audit_failures mv = getManifestFailures mv @ [parseFailureReason mv]
           \<and> last (audit_failures mv) = parseFailureReason mv
           \<and> length (audit_failures mv) = Suc (length (getManifestFailures mv))
           \<and> explanation p =
               Some (''Failures: '' @
                     joined_with [CHR '','', CHR 0x0A]
                       (getManifestFailures mv @ [parseFailureReason mv]) @ ''.'')
           \<and> (\<exists>before. explanation p = Some (before @ parseFailureReason mv @ ''.''))
           \<and> items (details p) = [item]
           \<and> ((\<forall>c\<in>set (allChecks mv). check_id c \<noteq> ''failures'') \<longrightarrow>
                item ''failures'' =
                  Some (Strings (getManifestFailures mv @ [parseFailureReason mv])))"
proof -
  let ?fs = "getManifestFailures mv @ [parseFailureReason mv]"
  let ?sep = "[CHR '','', CHR 0x0A]"
  let ?item = "spread [''failures'' \<mapsto> Strings ?fs] (getManifestChecks mv)"
  have fs: "audit_failures mv = ?fs"
    using assms(2) by (simp add: audit_failures_def)
  have "\<exists>p. audit request a ctx = Inr p \<and> rawValue p = False
          \<and> explanation p = Some (''Failures: '' @ joined_with ?sep ?fs @ ''.'')
          \<and> items (details p) = [?item]"
    using assms(1) by (simp add: audit_Inr fs join_joined_with)
  then obtain p where p: "audit request a ctx = Inr p" "rawValue p = False"
    "explanation p = Some (''Failures: '' @ joined_with ?sep ?fs @ ''.'')"
    "items (details p) = [?item]"
    by blast
  have ending: "\<exists>before. explanation p = Some (before @ parseFailureReason mv @ ''.'')"
  proof
    show "explanation p =
        Some ((''Failures: '' @
               (if getManifestFailures mv = [] then []
                else joined_with ?sep (getManifestFailures mv) @ ?sep))
              @ parseFailureReason mv @ ''.'')"
      using p(3) by (simp add: joined_with_snoc)
  qed
  have item: "?item ''failures'' = Some (Strings ?fs)"
    if "\<forall>c\<in>set (allChecks mv). check_id c \<noteq> ''failures''"
  proof -
    have "find (\<lambda>c. check_id c = ''failures'') (rev (allChecks mv)) = None"
      using that by (simp add: find_None_iff)
    then have "getManifestChecks mv ''failures'' = None"
      by (simp add: getManifestChecks_lookup)
    then show ?thesis by (simp add: spread_lookup)
  qed
  show ?thesis
  proof (intro exI [of _ p] exI [of _ ?item] conjI impI)
    show "audit request a ctx = Inr p" "rawValue p = False" "items (details p) = [?item]"
      "explanation p = Some (''Failures: '' @ joined_with ?sep ?fs @ ''.'')"
      by (fact p)+
    show "audit_failures mv = ?fs" by (fact fs)
    show "last (audit_failures mv) = parseFailureReason mv" by (simp add: fs)
    show "length (audit_failures mv) = Suc (length (getManifestFailures mv))"
      by (simp add: fs)
    show "\<exists>before. explanation p = Some (before @ parseFailureReason mv @ ''.'')"
      by (fact ending)
  next
    assume "\<forall>c\<in>set (allChecks mv). check_id c \<noteq> ''failures''"
    then show "?item ''failures'' = Some (Strings ?fs)" by (rule item)
  qed
qed

text \<open>
  Scenario C has the reason as its only failure; after two failures of required checks
  the reason is the third, in the explanation and in the details.
\<close>

theorem parse_failure_reason_last_witness:
  "(\<exists>p item. audit request_gives \<lparr>Manifest = scenario_C\<rparr> () = Inr p \<and> rawValue p = False
        \<and> explanation p = Some ''Failures: Failed to fetch manifest.''
        \<and> items (details p) = [item]
        \<and> item ''failures'' = Some (Strings [''Failed to fetch manifest'']))
   \<and> audit_failures scenario_C = [''Failed to fetch manifest'']
   \<and> (\<exists>p item. audit request_gives \<lparr>Manifest = parse_failure_after_failures\<rparr> () = Inr p
        \<and> rawValue p = False
        \<and> explanation p =
            Some (''Failures: No name,'' @ [CHR 0x0A] @ ''No start_url,'' @ [CHR 0x0A]
                  @ ''Failed to parse.'')
        \<and> items (details p) = [item]
        \<and> item ''failures'' = Some (Strings [''No name'', ''No start_url'', ''Failed to parse'']))
   \<and> audit_failures parse_failure_after_failures =
       [''No name'', ''No start_url'', ''Failed to parse'']"
proof -
  have c: "isParseFailure scenario_C"
    "\<forall>c\<in>set (allChecks scenario_C). check_id c \<noteq> ''failures''"
    by (simp_all add: scenario_defs)
  have d: "isParseFailure parse_failure_after_failures"
    "\<forall>c\<in>set (allChecks parse_failure_after_failures). check_id c \<noteq> ''failures''"
    by (simp_all add: parse_failure_after_failures_def scenario_defs)
  have fc: "getManifestFailures scenario_C = []"
    "parseFailureReason scenario_C = ''Failed to fetch manifest''"
    by (simp_all add: getManifestFailures_filter scenario_defs)
  have fd: "getManifestFailures parse_failure_after_failures = [''No name'', ''No start_url'']"
    "parseFailureReason parse_failure_after_failures = ''Failed to parse''"
    by (simp_all add: getManifestFailures_filter parse_failure_after_failures_def
        scenario_defs RequiredCheckSet_simps)
  show ?thesis
    using parse_failure_reason_last
        [where request = request_gives and a = "\<lparr>Manifest = scenario_C\<rparr>" and ctx = "()"
           and mv = scenario_C]
      parse_failure_reason_last
        [where request = request_gives and a = "\<lparr>Manifest = parse_failure_after_failures\<rparr>"
           and ctx = "()" and mv = parse_failure_after_failures]
      c d fc fd
    by (auto simp: request_gives_def)
qed

subsection \<open>The outcome of every check\<close>

text \<open>
  C4. Check ids are of the declared type \<^verbatim>\<open>ManifestValueCheckID\<close>, an enumeration of
  check names; \<^verbatim>\<open>__proto__\<close> is none of them, and the theorem needs no more of the type
  than that. For every such checklist, the keys of the object that \<^verbatim>\<open>getManifestChecks\<close>
  returns are exactly the ids of the checklist, and it records the \<open>passing\<close> of every
  check, required or not: each id holds the \<open>passing\<close> of the last check with that id, so
  that where ids repeat, later checks overwrite earlier ones, and every value held comes
  from a check of the checklist. The function is total.
\<close>

theorem getManifestChecks_keys_last_wins:
  assumes "\<forall>c\<in>set (allChecks mv). check_id c \<noteq> ''__proto__''"
  shows "dom (getManifestChecks mv) = check_id ` set (allChecks mv)
   \<and> (\<forall>k. getManifestChecks mv k =
            map_option passing (find (\<lambda>c. check_id c = k) (rev (allChecks mv))))
   \<and> (\<forall>xs c ys. allChecks mv = xs @ c # ys \<and> check_id c \<notin> check_id ` set ys \<longrightarrow>
          getManifestChecks mv (check_id c) = Some (passing c))
   \<and> (\<forall>k b. getManifestChecks mv k = Some b \<longrightarrow>
          (\<exists>c\<in>set (allChecks mv). check_id c = k \<and> passing c = b))"
proof (intro conjI allI impI)
  have "''__proto__'' \<notin> check_id ` set (allChecks mv)"
    using assms by auto
  then show "dom (getManifestChecks mv) = check_id ` set (allChecks mv)"
    by (simp add: dom_getManifestChecks)
next
  fix k :: string
  show "getManifestChecks mv k =
      map_option passing (find (\<lambda>c. check_id c = k) (rev (allChecks mv)))"
  proof (cases "k = ''__proto__''")
    case True
    then have "find (\<lambda>c. check_id c = k) (rev (allChecks mv)) = None"
      using assms by (simp add: find_None_iff)
    with True show ?thesis by (simp add: getManifestChecks_lookup)
  next
    case False
    then show ?thesis by (simp add: getManifestChecks_lookup)
  qed
next
  fix xs c ys
  assume h: "allChecks mv = xs @ c # ys \<and> check_id c \<notin> check_id ` set ys"
  then have "find (\<lambda>d. check_id d = check_id c) (rev (allChecks mv)) = Some c"
    by (intro last_check_lookup [of _ xs c ys]) simp_all
  moreover have "check_id c \<noteq> ''__proto__''"
    using assms h by simp
  ultimately show "getManifestChecks mv (check_id c) = Some (passing c)"
    by (simp add: getManifestChecks_lookup)
next
  fix k b
  assume "getManifestChecks mv k = Some b"
  then obtain c where "find (\<lambda>c. check_id c = k) (rev (allChecks mv)) = Some c"
    and "passing c = b"
    by (auto simp: getManifestChecks_lookup split: if_splits)
  then show "\<exists>c\<in>set (allChecks mv). check_id c = k \<and> passing c = b"
    using find_SomeD [of "\<lambda>c. check_id c = k" "rev (allChecks mv)" c] by auto
qed

text \<open>
  Scenario D: of two checks with the id \<^verbatim>\<open>hasName\<close>, the later one, which fails,
  gives the value. Scenario B: the keys are the five ids. A checklist with a check
  outside the required set has its id as a key too.
\<close>

theorem getManifestChecks_keys_last_wins_witness:
  "dom (getManifestChecks scenario_D) = {''hasName''}
   \<and> getManifestChecks scenario_D ''hasName'' = Some False
   \<and> dom (getManifestChecks scenario_B) =
       {''hasName'', ''hasShortName'', ''hasStartUrl'', ''hasPWADisplayValue'',
        ''hasIconsAtLeast192px''}
   \<and> getManifestChecks scenario_B ''hasShortName'' = Some False
   \<and> getManifestChecks scenario_B ''hasStartUrl'' = Some True
   \<and> dom (getManifestChecks with_other_check) = {''hasName'', ''hasThemeColor'', ''hasStartUrl''}
   \<and> getManifestChecks with_other_check ''hasThemeColor'' = Some False"
proof -
  have t: "\<forall>c\<in>set (allChecks scenario_D). check_id c \<noteq> ''__proto__''"
    "\<forall>c\<in>set (allChecks scenario_B). check_id c \<noteq> ''__proto__''"
    "\<forall>c\<in>set (allChecks with_other_check). check_id c \<noteq> ''__proto__''"
    by (simp_all add: with_other_check_def scenario_defs)
  have ids: "check_id ` set (allChecks scenario_D) = {''hasName''}"
    "check_id ` set (allChecks scenario_B) =
       {''hasName'', ''hasShortName'', ''hasStartUrl'', ''hasPWADisplayValue'',
        ''hasIconsAtLeast192px''}"
    "check_id ` set (allChecks with_other_check) =
       {''hasName'', ''hasThemeColor'', ''hasStartUrl''}"
    by (auto simp: with_other_check_def scenario_defs)
  have v: "map_option passing (find (\<lambda>c. check_id c = ''hasName'') (rev (allChecks scenario_D)))
             = Some False"
    "map_option passing (find (\<lambda>c. check_id c = ''hasShortName'') (rev (allChecks scenario_B)))
             = Some False"
    "map_option passing (find (\<lambda>c. check_id c = ''hasStartUrl'') (rev (allChecks scenario_B)))
             = Some True"
    "map_option passing
       (find (\<lambda>c. check_id c = ''hasThemeColor'') (rev (allChecks with_other_check)))
             = Some False"
    by (simp_all add: with_other_check_def scenario_defs)
  show ?thesis
    using getManifestChecks_keys_last_wins [OF t(1)] getManifestChecks_keys_last_wins [OF t(2)]
      getManifestChecks_keys_last_wins [OF t(3)] ids v
    by simp
qed

text \<open>
  C5. For every checklist (with ids of the declared type, as for C4) and every check in
  it whose id is not in the required set, the check never contributes to the failures,
  also when it is not passing: it is not among the checks that the filter keeps, and the
  failures, the verdict and the explanation of the product are those of the checklist
  without that check. Yet its id is always a key of the check outcomes, and of the object
  in \<^verbatim>\<open>details.items\<close>, with the \<open>passing\<close> of the last check of that id.
\<close>

theorem nonrequired_check_contributes_nothing:
  assumes "request (Manifest a) ctx = Inr mv"
    and "allChecks mv = xs @ c # ys" and "check_id c \<notin> RequiredCheckSet"
    and "check_id c \<noteq> ''__proto__''"
  shows "\<exists>p item. audit request a ctx = Inr p \<and> items (details p) = [item]
         \<and> c \<notin> set (filter (\<lambda>check. includes_array bannerCheckIds (check_id check)
                                 \<and> \<not> passing check) (allChecks mv))
         \<and> getManifestFailures mv = getManifestFailures (mv\<lparr>allChecks := xs @ ys\<rparr>)
         \<and> audit_failures mv = audit_failures (mv\<lparr>allChecks := xs @ ys\<rparr>)
         \<and> rawValue p = (audit_failures (mv\<lparr>allChecks := xs @ ys\<rparr>) = [])
         \<and> explanation p =
             (if audit_failures (mv\<lparr>allChecks := xs @ ys\<rparr>) = [] then None
              else Some (''Failures: '' @
                         joined_with [CHR '','', CHR 0x0A]
                           (audit_failures (mv\<lparr>allChecks := xs @ ys\<rparr>)) @ ''.''))
         \<and> check_id c \<in> dom (getManifestChecks mv)
         \<and> (\<exists>b. getManifestChecks mv (check_id c) = Some b
                \<and> item (check_id c) = Some (Boolean b))"
proof -
  let ?mv = "mv\<lparr>allChecks := xs @ ys\<rparr>"
  let ?item = "spread [''failures'' \<mapsto> Strings (audit_failures mv)] (getManifestChecks mv)"
  have kept: "c \<notin> set (filter (\<lambda>check. includes_array bannerCheckIds (check_id check)
                                 \<and> \<not> passing check) (allChecks mv))"
    using assms(3) by (simp add: includes_banner)
  have gf: "getManifestFailures mv = getManifestFailures ?mv"
    using assms(2,3) by (simp add: getManifestFailures_filter)
  have af: "audit_failures mv = audit_failures ?mv"
    using assms(2,3) by (simp add: audit_failures_filter)
  have key: "check_id c \<in> dom (getManifestChecks mv)"
    using assms(2,4) by (simp add: dom_getManifestChecks)
  then obtain b where b: "getManifestChecks mv (check_id c) = Some b"
    by blast
  then have item: "?item (check_id c) = Some (Boolean b)"
    by (simp add: spread_lookup)
  have "\<exists>p. audit request a ctx = Inr p \<and> items (details p) = [?item]
          \<and> rawValue p = (audit_failures mv = [])
          \<and> explanation p =
              (if audit_failures mv = [] then None
               else Some (''Failures: '' @
                          joined_with [CHR '','', CHR 0x0A] (audit_failures mv) @ ''.''))"
    using assms(1) by (simp add: audit_Inr join_joined_with)
  then obtain p where p: "audit request a ctx = Inr p" "items (details p) = [?item]"
    "rawValue p = (audit_failures ?mv = [])"
    "explanation p =
       (if audit_failures ?mv = [] then None
        else Some (''Failures: '' @
                   joined_with [CHR '','', CHR 0x0A] (audit_failures ?mv) @ ''.''))"
    unfolding af by blast
  show ?thesis
  proof (intro exI [of _ p] exI [of _ ?item] conjI)
    show "\<exists>b. getManifestChecks mv (check_id c) = Some b
            \<and> ?item (check_id c) = Some (Boolean b)"
      using b item by blast
  qed (fact p kept gf af key)+
qed

text \<open>
  A failing check \<^verbatim>\<open>hasThemeColor\<close> between two required checks: the failures and the
  explanation are those of the required checks alone, and its id is a key, with its
  outcome, of the check outcomes and of the details.
\<close>

theorem nonrequired_check_contributes_nothing_witness:
  "(\<exists>p item. audit request_gives \<lparr>Manifest = with_other_check\<rparr> () = Inr p
        \<and> items (details p) = [item]
        \<and> rawValue p = False
        \<and> explanation p = Some ''Failures: No name.''
        \<and> item ''hasThemeColor'' = Some (Boolean False))
   \<and> audit_failures with_other_check = [''No name'']
   \<and> ''No theme_color'' \<notin> set (audit_failures with_other_check)
   \<and> getManifestChecks with_other_check ''hasThemeColor'' = Some False"
proof -
  have a: "allChecks with_other_check =
      [failing_check ''hasName'' ''No name''] @ failing_check ''hasThemeColor'' ''No theme_color''
        # [passing_check ''hasStartUrl'']"
    by (simp add: with_other_check_def checklist_def)
  have b: "check_id (failing_check ''hasThemeColor'' ''No theme_color'') \<notin> RequiredCheckSet"
    "check_id (failing_check ''hasThemeColor'' ''No theme_color'') \<noteq> ''__proto__''"
    by (simp_all add: failing_check_def RequiredCheckSet_def)
  have c: "audit_failures (with_other_check\<lparr>allChecks :=
      [failing_check ''hasName'' ''No name''] @ [passing_check ''hasStartUrl'']\<rparr>) = [''No name'']"
    by (simp add: audit_failures_filter with_other_check_def scenario_defs RequiredCheckSet_simps)
  have d: "check_id (failing_check ''hasThemeColor'' ''No theme_color'') = ''hasThemeColor''"
    by (simp add: failing_check_def)
  have e: "getManifestChecks with_other_check ''hasThemeColor'' = Some False"
    by (simp add: getManifestChecks_lookup with_other_check_def scenario_defs)
  show ?thesis
    using nonrequired_check_contributes_nothing
        [where request = request_gives and a = "\<lparr>Manifest = with_other_check\<rparr>" and ctx = "()"
           and mv = with_other_check, OF _ a b]
      c d e
    by (auto simp: request_gives_def)
qed

subsection \<open>Passing, and the explanation\<close>



text \<open>
  C7. In every product of the audit, the explanation is present only when \<open>rawValue\<close> is
  false (and then it is present), and it is the string \<^verbatim>\<open>Failures: \<close>, then the failures
  joined with a comma and a line feed between neighbours, then a full stop.
\<close>

theorem explanation_format:
  assumes "request (Manifest a) ctx = Inr mv"
  shows "\<exists>p. audit request a ctx = Inr p
           \<and> (explanation p \<noteq> None \<longleftrightarrow> rawValue p = False)
           \<and> (rawValue p = False \<longrightarrow>
                explanation p =
                  Some (''Failures: '' @
                        joined_with [CHR '','', CHR 0x0A] (audit_failures mv) @ ''.''))"
  using assms by (simp add: audit_Inr join_joined_with)

text \<open>Two failures give one explanation of two lines; scenario A has no explanation.\<close>

theorem explanation_format_witness:
  "(\<exists>p. audit request_gives \<lparr>Manifest = two_failures\<rparr> () = Inr p \<and> rawValue p = False
        \<and> explanation p =
            Some (''Failures: No name,'' @ [CHR 0x0A] @ ''No short_name.''))
   \<and> (\<exists>p. audit request_gives \<lparr>Manifest = scenario_A\<rparr> () = Inr p \<and> rawValue p = True
        \<and> explanation p = None)"
proof -
  have f: "audit_failures two_failures = [''No name'', ''No short_name'']"
    "audit_failures scenario_A = []"
    by (simp_all add: audit_failures_filter two_failures_def scenario_defs
        RequiredCheckSet_simps)
  show ?thesis
    using explanation_format
        [where request = request_gives and a = "\<lparr>Manifest = two_failures\<rparr>" and ctx = "()"
           and mv = two_failures]
      explanation_format
        [where request = request_gives and a = "\<lparr>Manifest = scenario_A\<rparr>" and ctx = "()"
           and mv = scenario_A]
      f audit_Inr [where request = request_gives and a = "\<lparr>Manifest = two_failures\<rparr>"
           and ctx = "()" and mv = two_failures]
      audit_Inr [where request = request_gives and a = "\<lparr>Manifest = scenario_A\<rparr>"
           and ctx = "()" and mv = scenario_A]
    by (auto simp: request_gives_def)
qed

subsection \<open>Failure of the collaborator\<close>

text \<open>
  C8. Whenever the collaborator \<^verbatim>\<open>ManifestValues.request\<close> fails, the audit fails with
  the very same error and gives no product; and the audit fails in no other case, so
  it raises no error of its own. The error type is arbitrary: the audit cannot inspect,
  wrap or reclassify the error.
\<close>

theorem request_failure_propagates:
  "(request (Manifest a) ctx = Inl e \<longrightarrow> audit request a ctx = Inl e)
   \<and> (audit request a ctx = Inl e \<longrightarrow> request (Manifest a) ctx = Inl e)"
  by (auto simp: audit_def Let_def split: sum.splits)

text \<open>A collaborator that rejects: the audit is rejected with the same message.\<close>

theorem request_failure_propagates_witness:
  "audit request_fails \<lparr>Manifest = scenario_A\<rparr> () = Inl ''Manifest artifact is malformed''"
  using request_failure_propagates
      [where request = request_fails and a = "\<lparr>Manifest = scenario_A\<rparr>" and ctx = "()"
         and e = "''Manifest artifact is malformed''"]
  by (simp add: request_fails_def)

subsection \<open>Checks that the checklist lacks\<close>

text \<open>
  C9. For every checklist in which some required id \<open>r\<close> does not occur, the absent
  check gives no failure: every failure text of \<^verbatim>\<open>getManifestFailures\<close> is that of a
  failing required check present in the checklist, with an id other than \<open>r\<close>. So the
  verdict depends on the present checks only: \<open>rawValue\<close> is true exactly when there is
  no parse failure and every present required check is passing, although \<open>r\<close> was
  never evaluated.
\<close>

theorem absent_required_check_does_not_block:
  assumes "request (Manifest a) ctx = Inr mv"
    and "r \<in> RequiredCheckSet" and "r \<notin> check_id ` set (allChecks mv)"
  shows "\<exists>p. audit request a ctx = Inr p
           \<and> (rawValue p \<longleftrightarrow>
                \<not> isParseFailure mv \<and>
                (\<forall>c\<in>set (allChecks mv). check_id c \<in> RequiredCheckSet \<longrightarrow> passing c))
           \<and> (\<forall>t\<in>set (getManifestFailures mv).
                \<exists>c\<in>set (allChecks mv). check_id c \<in> RequiredCheckSet \<and> check_id c \<noteq> r
                  \<and> \<not> passing c \<and> failureText c = t)"
proof -
  have "\<exists>c\<in>set (allChecks mv). check_id c \<in> RequiredCheckSet \<and> check_id c \<noteq> r
          \<and> \<not> passing c \<and> failureText c = t"
    if "t \<in> set (getManifestFailures mv)" for t
    using that assms(3) by (auto simp: getManifestFailures_filter)
  then show ?thesis
    using assms(1) by (simp add: audit_Inr audit_failures_empty)
qed

text \<open>
  The empty checklist with no parse failure: \<^verbatim>\<open>hasName\<close> is required and absent, and
  the audit passes.
\<close>

theorem absent_required_check_does_not_block_witness:
  "''hasName'' \<in> RequiredCheckSet
   \<and> ''hasName'' \<notin> check_id ` set (allChecks empty_checklist)
   \<and> (\<exists>p. audit request_gives \<lparr>Manifest = empty_checklist\<rparr> () = Inr p \<and> rawValue p = True)"
proof -
  have h: "''hasName'' \<in> RequiredCheckSet"
    "''hasName'' \<notin> check_id ` set (allChecks empty_checklist)"
    "isParseFailure empty_checklist = False" "allChecks empty_checklist = []"
    by (simp_all add: empty_checklist_def checklist_def RequiredCheckSet_def)
  show ?thesis
    using absent_required_check_does_not_block
        [where request = request_gives and a = "\<lparr>Manifest = empty_checklist\<rparr>" and ctx = "()"
           and mv = empty_checklist and r = "''hasName''"] h
    by (auto simp: request_gives_def)
qed

subsection \<open>The details\<close>

text \<open>
  C10. The product's \<^verbatim>\<open>details.items\<close> has one object, in which the outcomes of the
  checks are merged after the property \<^verbatim>\<open>failures\<close>: every key of the check outcomes is
  a key of that object with the same boolean, so that every check of the checklist
  (with an id of the declared type, see C4) has its id there, and the object has no
  other key than these and \<^verbatim>\<open>failures\<close>. So for every checklist with a check whose id
  is \<^verbatim>\<open>failures\<close>, the property \<^verbatim>\<open>failures\<close> of that object holds the boolean
  \<open>passing\<close> of the last such check instead of the sequence of failures; and for every
  checklist with no such id, it holds the whole sequence of failures.
\<close>

theorem details_failures_key:
  assumes "request (Manifest a) ctx = Inr mv"
  shows "\<exists>p item. audit request a ctx = Inr p \<and> items (details p) = [item]
           \<and> item ''failures'' =
               (case find (\<lambda>c. check_id c = ''failures'') (rev (allChecks mv)) of
                  Some c \<Rightarrow> Some (Boolean (passing c))
                | None \<Rightarrow> Some (Strings (audit_failures mv)))
           \<and> ((\<forall>c\<in>set (allChecks mv). check_id c \<noteq> ''failures'') \<longrightarrow>
                item ''failures'' = Some (Strings (audit_failures mv)))
           \<and> (\<forall>xs c ys. allChecks mv = xs @ c # ys \<and> check_id c = ''failures''
                  \<and> (\<forall>d\<in>set ys. check_id d \<noteq> ''failures'') \<longrightarrow>
                item ''failures'' = Some (Boolean (passing c)))
           \<and> (\<forall>k b. getManifestChecks mv k = Some b \<longrightarrow> item k = Some (Boolean b))
           \<and> (\<forall>xs c ys. allChecks mv = xs @ c # ys \<and> check_id c \<notin> check_id ` set ys
                  \<and> check_id c \<noteq> ''__proto__'' \<longrightarrow>
                item (check_id c) = Some (Boolean (passing c)))
           \<and> (\<forall>k. k \<noteq> ''failures'' \<and> k \<notin> check_id ` set (allChecks mv) \<longrightarrow> item k = None)"
proof -
  let ?item = "spread [''failures'' \<mapsto> Strings (audit_failures mv)] (getManifestChecks mv)"
  let ?last = "find (\<lambda>c. check_id c = ''failures'') (rev (allChecks mv))"
  have eq: "?item ''failures'' =
      (case ?last of Some c \<Rightarrow> Some (Boolean (passing c))
       | None \<Rightarrow> Some (Strings (audit_failures mv)))"
    by (simp add: spread_failures getManifestChecks_lookup split: option.splits)
  have none: "?item ''failures'' = Some (Strings (audit_failures mv))"
    if "\<forall>c\<in>set (allChecks mv). check_id c \<noteq> ''failures''"
  proof -
    have "?last = None" using that by (simp add: find_None_iff)
    then show ?thesis using eq by simp
  qed
  have some: "?item ''failures'' = Some (Boolean (passing c))"
    if "allChecks mv = xs @ c # ys \<and> check_id c = ''failures''
          \<and> (\<forall>d\<in>set ys. check_id d \<noteq> ''failures'')" for xs c ys
  proof -
    have "check_id c \<notin> check_id ` set ys" using that by auto
    then have "find (\<lambda>d. check_id d = check_id c) (rev (allChecks mv)) = Some c"
      using that by (intro last_check_lookup [of _ xs c ys]) simp_all
    then have "?last = Some c" using that by simp
    then show ?thesis using eq by simp
  qed
  have merged: "?item k = Some (Boolean b)" if "getManifestChecks mv k = Some b" for k b
    using that by (simp add: spread_lookup)
  have every: "?item (check_id c) = Some (Boolean (passing c))"
    if "allChecks mv = xs @ c # ys \<and> check_id c \<notin> check_id ` set ys
          \<and> check_id c \<noteq> ''__proto__''" for xs c ys
  proof -
    have "find (\<lambda>d. check_id d = check_id c) (rev (allChecks mv)) = Some c"
      using that by (intro last_check_lookup [of _ xs c ys]) simp_all
    then have "getManifestChecks mv (check_id c) = Some (passing c)"
      using that by (simp add: getManifestChecks_lookup)
    then show ?thesis by (rule merged)
  qed
  have other: "?item k = None"
    if "k \<noteq> ''failures'' \<and> k \<notin> check_id ` set (allChecks mv)" for k
  proof -
    have "k \<notin> dom (getManifestChecks mv)"
      using that by (simp add: dom_getManifestChecks)
    then have "getManifestChecks mv k = None" by blast
    then show ?thesis using that by (simp add: spread_lookup)
  qed
  obtain p where p: "audit request a ctx = Inr p" "items (details p) = [?item]"
    using assms by (simp add: audit_Inr)
  show ?thesis
  proof (intro exI [of _ p] exI [of _ ?item] conjI allI impI)
    show "audit request a ctx = Inr p" "items (details p) = [?item]"
      by (fact p)+
    show "?item ''failures'' =
        (case ?last of Some c \<Rightarrow> Some (Boolean (passing c))
         | None \<Rightarrow> Some (Strings (audit_failures mv)))"
      by (fact eq)
  next
    assume "\<forall>c\<in>set (allChecks mv). check_id c \<noteq> ''failures''"
    then show "?item ''failures'' = Some (Strings (audit_failures mv))"
      by (rule none)
  next
    fix xs c ys
    assume "allChecks mv = xs @ c # ys \<and> check_id c = ''failures''
          \<and> (\<forall>d\<in>set ys. check_id d \<noteq> ''failures'')"
    then show "?item ''failures'' = Some (Boolean (passing c))"
      by (rule some)
  next
    fix k b
    assume "getManifestChecks mv k = Some b"
    then show "?item k = Some (Boolean b)" by (rule merged)
  next
    fix xs c ys
    assume "allChecks mv = xs @ c # ys \<and> check_id c \<notin> check_id ` set ys
          \<and> check_id c \<noteq> ''__proto__''"
    then show "?item (check_id c) = Some (Boolean (passing c))" by (rule every)
  next
    fix k
    assume "k \<noteq> ''failures'' \<and> k \<notin> check_id ` set (allChecks mv)"
    then show "?item k = None" by (rule other)
  qed
qed

text \<open>
  With a passing check named \<^verbatim>\<open>failures\<close> after a failing \<^verbatim>\<open>hasName\<close>, the property
  \<^verbatim>\<open>failures\<close> holds \<open>true\<close> although there is one failure, and \<^verbatim>\<open>hasName\<close> holds
  \<open>false\<close>; in scenario B the property holds the one failure text, beside the outcomes of
  the checks, and there is no key for a check that the checklist lacks.
\<close>

theorem details_failures_key_witness:
  "(\<exists>p item. audit request_gives \<lparr>Manifest = failures_check\<rparr> () = Inr p
        \<and> items (details p) = [item] \<and> item ''failures'' = Some (Boolean True)
        \<and> item ''hasName'' = Some (Boolean False))
   \<and> audit_failures failures_check = [''No name'']
   \<and> (\<exists>p item. audit request_gives \<lparr>Manifest = scenario_B\<rparr> () = Inr p
        \<and> items (details p) = [item]
        \<and> item ''failures'' =
            Some (Strings [''Manifest does not contain a short_name field''])
        \<and> item ''hasName'' = Some (Boolean True)
        \<and> item ''hasShortName'' = Some (Boolean False)
        \<and> item ''hasThemeColor'' = None)"
proof -
  have f: "audit_failures failures_check = [''No name'']"
    "audit_failures scenario_B = [''Manifest does not contain a short_name field'']"
    by (simp_all add: audit_failures_filter failures_check_def scenario_defs
        RequiredCheckSet_simps)
  have l: "find (\<lambda>c. check_id c = ''failures'') (rev (allChecks failures_check)) =
             Some (passing_check ''failures'')"
    "find (\<lambda>c. check_id c = ''failures'') (rev (allChecks scenario_B)) = None"
    by (simp_all add: failures_check_def scenario_defs)
  have p: "passing (passing_check ''failures'') = True"
    by (simp add: passing_check_def)
  have g: "getManifestChecks failures_check ''hasName'' = Some False"
    "getManifestChecks scenario_B ''hasName'' = Some True"
    "getManifestChecks scenario_B ''hasShortName'' = Some False"
    by (simp_all add: getManifestChecks_lookup failures_check_def scenario_defs)
  have n: "''hasThemeColor'' \<noteq> ''failures''
      \<and> ''hasThemeColor'' \<notin> check_id ` set (allChecks scenario_B)"
    by (simp add: scenario_defs)
  have r1: "request_gives (Manifest \<lparr>Manifest = failures_check\<rparr>) () = Inr failures_check"
    and r2: "request_gives (Manifest \<lparr>Manifest = scenario_B\<rparr>) () = Inr scenario_B"
    by (simp_all add: request_gives_def)
  from details_failures_key
        [where request = request_gives and a = "\<lparr>Manifest = failures_check\<rparr>" and ctx = "()"
           and mv = failures_check, OF r1]
  obtain p1 i1 where a1: "audit request_gives \<lparr>Manifest = failures_check\<rparr> () = Inr p1"
    "items (details p1) = [i1]"
    and b1: "i1 ''failures'' =
       (case find (\<lambda>c. check_id c = ''failures'') (rev (allChecks failures_check)) of
          Some c \<Rightarrow> Some (Boolean (passing c))
        | None \<Rightarrow> Some (Strings (audit_failures failures_check)))"
    and c1: "\<forall>k b. getManifestChecks failures_check k = Some b \<longrightarrow> i1 k = Some (Boolean b)"
    by (elim exE conjE) (rule that, assumption+)
  have one: "i1 ''failures'' = Some (Boolean True)" "i1 ''hasName'' = Some (Boolean False)"
    using b1 c1 l p g by simp_all
  from details_failures_key
        [where request = request_gives and a = "\<lparr>Manifest = scenario_B\<rparr>" and ctx = "()"
           and mv = scenario_B, OF r2]
  obtain p2 i2 where a2: "audit request_gives \<lparr>Manifest = scenario_B\<rparr> () = Inr p2"
    "items (details p2) = [i2]"
    and b2: "i2 ''failures'' =
       (case find (\<lambda>c. check_id c = ''failures'') (rev (allChecks scenario_B)) of
          Some c \<Rightarrow> Some (Boolean (passing c))
        | None \<Rightarrow> Some (Strings (audit_failures scenario_B)))"
    and c2: "\<forall>k b. getManifestChecks scenario_B k = Some b \<longrightarrow> i2 k = Some (Boolean b)"
    and d2: "\<forall>k. k \<noteq> ''failures'' \<and> k \<notin> check_id ` set (allChecks scenario_B) \<longrightarrow> i2 k = None"
    by (elim exE conjE) (rule that, assumption+)
  have two: "i2 ''failures'' = Some (Strings [''Manifest does not contain a short_name field''])"
    "i2 ''hasName'' = Some (Boolean True)" "i2 ''hasShortName'' = Some (Boolean False)"
    "i2 ''hasThemeColor'' = None"
    using b2 c2 d2 f l g n by simp_all
  have "\<exists>p item. audit request_gives \<lparr>Manifest = failures_check\<rparr> () = Inr p
        \<and> items (details p) = [item] \<and> item ''failures'' = Some (Boolean True)
        \<and> item ''hasName'' = Some (Boolean False)"
    using a1 one by (intro exI [of _ p1] exI [of _ i1]) simp
  moreover have "\<exists>p item. audit request_gives \<lparr>Manifest = scenario_B\<rparr> () = Inr p
        \<and> items (details p) = [item]
        \<and> item ''failures'' =
            Some (Strings [''Manifest does not contain a short_name field''])
        \<and> item ''hasName'' = Some (Boolean True)
        \<and> item ''hasShortName'' = Some (Boolean False)
        \<and> item ''hasThemeColor'' = None"
    using a2 two by (intro exI [of _ p2] exI [of _ i2]) simp
  ultimately show ?thesis
    using f(1) by (intro conjI)
qed

end
